theory Spec2Isabelle
  imports Complex_Main "HOL-Library.Word" "HOL-Library.Multiset"
begin

section \<open>Data model of the fiat package\<close>

text \<open>
  A Go \<^verbatim>\<open>time.Time\<close> is used by the code only as an absolute instant: it is
  compared with \<^verbatim>\<open>Before\<close>, shifted with \<^verbatim>\<open>Add\<close> and built with
  \<^verbatim>\<open>time.Unix\<close>. An instant is modelled as the integer number of nanoseconds since
  the Unix epoch; the finite range of the Go representation and the location a
  \<^verbatim>\<open>time.Time\<close> carries for printing are not part of the model.
\<close>

type_synonym time = int

definition Time_Before :: "time \<Rightarrow> time \<Rightarrow> bool" where
  "Time_Before t u = (t < u)"

definition Time_Add :: "time \<Rightarrow> int \<Rightarrow> time" where
  "Time_Add t d = t + d"

definition Time_Unix :: "int \<Rightarrow> int \<Rightarrow> time" where
  "Time_Unix sec nsec = sec * 1000000000 + nsec"

definition Time_Hour :: int where
  "Time_Hour = 3600 * 1000000000"

text \<open>
  Modelled from the spec: the decimal type of prices (package shopspring/decimal) is
  not under src/. The spec describes it as an arbitrary-precision fixed-point decimal
  whose arithmetic is exact, so a decimal is modelled by the rational number it
  denotes, with exact division and multiplication.
\<close>

type_synonym decimal = rat

definition decimal_NewFromInt :: "int \<Rightarrow> decimal" where
  "decimal_NewFromInt v = of_int v"

definition decimal_Div :: "decimal \<Rightarrow> decimal \<Rightarrow> decimal" where
  "decimal_Div d d2 = d / d2"

definition decimal_Mul :: "decimal \<Rightarrow> decimal \<Rightarrow> decimal" where
  "decimal_Mul d d2 = d * d2"

text \<open>
  The errors of the package, \<^verbatim>\<open>csv.ErrFieldCount\<close> of the standard library, and
  other errors raised by code outside the package.
\<close>

datatype error =
    errNoPrices
  | errUnknownPriceBackend
  | errPriceOutOfRange
  | errGranularityRequired
  | errIncorrectCSV
  | ErrFieldCount
  | ExternalError string

text \<open>\<^verbatim>\<open>USDPrice\<close>: a price point of a series (fiat/prices.go, fiat/coindesk_api.go).\<close>

record USDPrice =
  Timestamp :: time
  Price :: decimal

section \<open>Point lookup: \<^verbatim>\<open>GetPrice\<close> (fiat/prices.go)\<close>

text \<open>
  The \<^verbatim>\<open>for _, price := range prices\<close> loop of \<^verbatim>\<open>GetPrice\<close>. The
  variable \<^verbatim>\<open>lastPrice\<close> starts as the nil pointer (\<open>None\<close>); the loop breaks at
  the first point the query timestamp lies strictly before. The elements of the slice
  are pointers that the sources always set, so they are modelled as the records they
  point to.
\<close>

fun GetPrice_loop :: "USDPrice list \<Rightarrow> time \<Rightarrow> USDPrice option \<Rightarrow> USDPrice option" where
  "GetPrice_loop [] timestamp lastPrice = lastPrice"
| "GetPrice_loop (price # rest) timestamp lastPrice =
     (if Time_Before timestamp (Timestamp price) then lastPrice
      else GetPrice_loop rest timestamp (Some price))"

definition GetPrice :: "USDPrice list \<Rightarrow> time \<Rightarrow> error + USDPrice" where
  "GetPrice prices timestamp =
     (if length prices = 0 then Inl errNoPrices
      else (case GetPrice_loop prices timestamp None of
              None \<Rightarrow> Inl errPriceOutOfRange
            | Some lastPrice \<Rightarrow> Inr lastPrice))"

section \<open>Unit conversion: \<^verbatim>\<open>MsatToUSD\<close> (fiat/prices.go)\<close>

text \<open>
  \<^verbatim>\<open>lnwire.MilliSatoshi\<close> is an unsigned 64-bit integer. The Go conversion
  \<^verbatim>\<open>int64(amt)\<close> keeps the bit pattern and reads it as a signed value, which is
  \<open>sint\<close> on a 64-bit word.
\<close>

type_synonym MilliSatoshi = "64 word"

definition MsatToUSD :: "decimal \<Rightarrow> MilliSatoshi \<Rightarrow> decimal" where
  "MsatToUSD price amt =
     (let msatDecimal = decimal_NewFromInt (sint amt);
          pricePerMSat = decimal_Div price (decimal_NewFromInt 100000000000)
      in decimal_Mul pricePerMSat msatDecimal)"

section \<open>Code outside the package, as parameters\<close>

text \<open>
  The functions below are called by the sources but are not part of them: the Go
  standard library (\<^verbatim>\<open>time\<close>, \<^verbatim>\<open>net/http\<close>, \<^verbatim>\<open>encoding/json\<close>,
  \<^verbatim>\<open>strconv\<close>), the decimal package, and three functions of this repository that
  are not under src/ (\<^verbatim>\<open>utils.ValidateTimeRange\<close>, \<^verbatim>\<open>retryQuery\<close>,
  \<^verbatim>\<open>newCoinCapAPI\<close>). They are taken as parameters, collected in one record, and
  every theorem about the sources holds for all of them. The type \<open>'f\<close> stands for
  \<^verbatim>\<open>float64\<close>, \<open>'g\<close> for \<^verbatim>\<open>Granularity\<close> and \<open>'c\<close> for
  \<^verbatim>\<open>context.Context\<close>.

  \<^item> \<open>ValidateTimeRange s e\<close>: \<^verbatim>\<open>utils.ValidateTimeRange(s, e, utils.DisallowFutureRange)\<close>,
    \<open>None\<close> for a nil error.
  \<^item> \<open>time_Format t\<close>: \<^verbatim>\<open>t.Format(coinDeskTimeFormat)\<close>.
  \<^item> \<open>time_Parse s\<close>: \<^verbatim>\<open>time.Parse(coinDeskTimeFormat, s)\<close>.
  \<^item> \<open>http_Get url\<close>: \<^verbatim>\<open>http.Get(url)\<close> followed by reading the whole body.
  \<^item> \<open>retryQuery ctx queryAPI convert\<close>: the retry engine, given the two closures.
  \<^item> \<open>json_Unmarshal data\<close>: decoding into \<^verbatim>\<open>coinDeskResponse\<close>; the result is
    the \<^verbatim>\<open>bpi\<close> map as the list of its entries in the order in which the
    \<^verbatim>\<open>range\<close> loop visits them (an order Go leaves unspecified).
  \<^item> \<open>decimal_NewFromFloat\<close>, \<open>strconv_ParseInt s\<close> for
    \<^verbatim>\<open>strconv.ParseInt(s, 10, 64)\<close>, \<open>strconv_ParseFloat s\<close> for
    \<^verbatim>\<open>strconv.ParseFloat(s, 64)\<close>.
  \<^item> \<open>newCoinCapAPI g\<close>: the \<^verbatim>\<open>GetPrices\<close> method of the backend that
    \<^verbatim>\<open>newCoinCapAPI(g)\<close> constructs.
  \<^item> \<open>os_Open path\<close>: \<^verbatim>\<open>os.Open(path)\<close>, giving the contents of the file.
  \<^item> \<open>csv_records contents\<close>: the records that the reader of
    \<^verbatim>\<open>encoding/csv\<close> lexes from the contents, in order; each is the list of its
    fields, or the error of a record that is not well-formed CSV.
\<close>

record ('f, 'g, 'c) env =
  ValidateTimeRange :: "time \<Rightarrow> time \<Rightarrow> error option"
  time_Format :: "time \<Rightarrow> string"
  time_Parse :: "string \<Rightarrow> error + time"
  http_Get :: "string \<Rightarrow> error + string"
  retryQuery :: "'c \<Rightarrow> (unit \<Rightarrow> error + string) \<Rightarrow> (string \<Rightarrow> error + USDPrice list)
                   \<Rightarrow> error + USDPrice list"
  json_Unmarshal :: "string \<Rightarrow> error + (string \<times> 'f) list"
  decimal_NewFromFloat :: "'f \<Rightarrow> decimal"
  strconv_ParseInt :: "string \<Rightarrow> error + int"
  strconv_ParseFloat :: "string \<Rightarrow> error + 'f"
  newCoinCapAPI :: "'g \<Rightarrow> 'c \<Rightarrow> time \<Rightarrow> time \<Rightarrow> error + USDPrice list"
  os_Open :: "string \<Rightarrow> error + string"
  csv_records :: "string \<Rightarrow> (error + string list) list"

section \<open>The CoinDesk source (fiat/coindesk_api.go)\<close>

definition coinDeskHistoryAPI :: string where
  "coinDeskHistoryAPI = ''https://api.coindesk.com/v1/bpi/historical/close.json''"

text \<open>The URL that \<^verbatim>\<open>queryCoinDesk\<close> builds with \<^verbatim>\<open>fmt.Sprintf\<close>.\<close>

definition queryURL :: "('f, 'g, 'c) env \<Rightarrow> time \<Rightarrow> time \<Rightarrow> string" where
  "queryURL E start end =
     coinDeskHistoryAPI @ ''?start='' @ time_Format E start @ ''&end='' @ time_Format E end"

definition queryCoinDesk :: "('f, 'g, 'c) env \<Rightarrow> time \<Rightarrow> time \<Rightarrow> error + string" where
  "queryCoinDesk E start end = http_Get E (queryURL E start end)"

text \<open>
  \<^verbatim>\<open>parseCoinDeskData\<close>: the loop over the decoded entries appends one record per
  entry and returns at the first date that does not parse.
\<close>

fun parseCoinDeskData_loop ::
  "('f, 'g, 'c) env \<Rightarrow> (string \<times> 'f) list \<Rightarrow> USDPrice list \<Rightarrow> error + USDPrice list" where
  "parseCoinDeskData_loop E [] usdRecords = Inr usdRecords"
| "parseCoinDeskData_loop E ((date, price) # rest) usdRecords =
     (case time_Parse E date of
        Inl err \<Rightarrow> Inl err
      | Inr timestamp \<Rightarrow>
          parseCoinDeskData_loop E rest
            (usdRecords @ [\<lparr>Timestamp = timestamp, Price = decimal_NewFromFloat E price\<rparr>]))"

definition parseCoinDeskData :: "('f, 'g, 'c) env \<Rightarrow> string \<Rightarrow> error + USDPrice list" where
  "parseCoinDeskData E data =
     (case json_Unmarshal E data of
        Inl err \<Rightarrow> Inl err
      | Inr priceEntries \<Rightarrow> parseCoinDeskData_loop E priceEntries [])"

text \<open>
  \<^verbatim>\<open>coinDeskAPI.GetPrices\<close>. The closure \<^verbatim>\<open>query\<close> captures the variables
  \<^verbatim>\<open>start\<close> and \<^verbatim>\<open>end\<close> themselves, not their values at the time the closure
  is made (Go closures capture variables by reference). The two variables are kept in
  a record, the closure is a function of that record, and a call of the closure reads
  the record as it is when the call happens. The assignment
  \<^verbatim>\<open>start = start.Add(time.Hour * -24)\<close> comes after the closure is made and before
  \<^verbatim>\<open>retryQuery\<close> is called, and nothing assigns to either variable afterwards, so
  every call that \<^verbatim>\<open>retryQuery\<close> makes reads the record after the assignment.
  \<^verbatim>\<open>sort.SliceStable\<close> with the comparison \<^verbatim>\<open>Before\<close> on timestamps is the
  stable sort by the key \<open>Timestamp\<close>.
\<close>

record locals =
  var_start :: time
  var_end :: time

definition query :: "('f, 'g, 'c) env \<Rightarrow> locals \<Rightarrow> error + string" where
  "query E vars = queryCoinDesk E (var_start vars) (var_end vars)"

definition coinDeskAPI_GetPrices ::
  "('f, 'g, 'c) env \<Rightarrow> 'c \<Rightarrow> time \<Rightarrow> time \<Rightarrow> error + USDPrice list" where
  "coinDeskAPI_GetPrices E ctx start end =
     (let vars = \<lparr>var_start = start, var_end = end\<rparr> in
      case ValidateTimeRange E (var_start vars) (var_end vars) of
        Some err \<Rightarrow> Inl err
      | None \<Rightarrow>
          (let vars = vars\<lparr>var_start := Time_Add (var_start vars) (Time_Hour * (- 24))\<rparr> in
           case retryQuery E ctx (\<lambda>_. query E vars) (parseCoinDeskData E) of
             Inl err \<Rightarrow> Inl err
           | Inr records \<Rightarrow> Inr (sort_key Timestamp records)))"

section \<open>The orchestrator: \<^verbatim>\<open>NewPriceAPIBackend\<close> and \<^verbatim>\<open>GetPrices\<close> (fiat/prices.go)\<close>

text \<open>
  \<^verbatim>\<open>PriceBackend\<close> is a Go \<^verbatim>\<open>int\<close> with two named values. A
  \<^verbatim>\<open>PriceAPIBackend\<close> has the single method \<^verbatim>\<open>GetPrices\<close> and is modelled by
  that method. The granularity pointer is \<open>None\<close> when nil.
\<close>

type_synonym PriceBackend = int

type_synonym 'c PriceAPIBackend = "'c \<Rightarrow> time \<Rightarrow> time \<Rightarrow> error + USDPrice list"

definition CoinCapPriceBackend :: PriceBackend where
  "CoinCapPriceBackend = 0"

definition CoinDeskPriceBackend :: PriceBackend where
  "CoinDeskPriceBackend = 1"

definition NewPriceAPIBackend ::
  "('f, 'g, 'c) env \<Rightarrow> PriceBackend \<Rightarrow> 'g option \<Rightarrow> error + 'c PriceAPIBackend" where
  "NewPriceAPIBackend E backend granularity =
     (if backend = CoinCapPriceBackend then
        (case granularity of
           None \<Rightarrow> Inl errGranularityRequired
         | Some g \<Rightarrow> Inr (newCoinCapAPI E g))
      else if backend = CoinDeskPriceBackend then Inr (coinDeskAPI_GetPrices E)
      else Inl errUnknownPriceBackend)"

text \<open>
  The lookup loop of \<^verbatim>\<open>GetPrices\<close>: one \<^verbatim>\<open>GetPrice\<close> per timestamp, stored in
  the map under the timestamp; the first failing lookup ends the call with its error.
\<close>

fun GetPrices_loop ::
  "USDPrice list \<Rightarrow> time list \<Rightarrow> (time \<rightharpoonup> USDPrice) \<Rightarrow> error + (time \<rightharpoonup> USDPrice)" where
  "GetPrices_loop priceData [] prices = Inr prices"
| "GetPrices_loop priceData (ts # rest) prices =
     (case GetPrice priceData ts of
        Inl err \<Rightarrow> Inl err
      | Inr price \<Rightarrow> GetPrices_loop priceData rest (prices(ts \<mapsto> price)))"

text \<open>
  The part of \<^verbatim>\<open>GetPrices\<close> between the sort of the timestamps and the lookup
  loop: it takes the first and last timestamp, constructs the backend and fetches.
  Its result is the variable \<^verbatim>\<open>priceData\<close>, the series every lookup of the loop
  receives.
\<close>

definition GetPrices_priceData ::
  "('f, 'g, 'c) env \<Rightarrow> 'c \<Rightarrow> time list \<Rightarrow> PriceBackend \<Rightarrow> 'g \<Rightarrow> error + USDPrice list" where
  "GetPrices_priceData E ctx timestamps backend granularity =
     (let start = timestamps ! 0; end = timestamps ! (length timestamps - 1) in
      case NewPriceAPIBackend E backend (Some granularity) of
        Inl err \<Rightarrow> Inl err
      | Inr client \<Rightarrow> client ctx start end)"

text \<open>
  \<^verbatim>\<open>GetPrices\<close>. The slice \<^verbatim>\<open>timestamps\<close> shares its elements with the caller's
  slice and \<^verbatim>\<open>sort.SliceStable\<close> sorts it in place, so the model returns, next to
  the result, the contents of the caller's slice after the call. A nil map is the
  empty map.
\<close>

definition GetPrices ::
  "('f, 'g, 'c) env \<Rightarrow> 'c \<Rightarrow> time list \<Rightarrow> PriceBackend \<Rightarrow> 'g
     \<Rightarrow> (error + (time \<rightharpoonup> USDPrice)) \<times> time list" where
  "GetPrices E ctx timestamps backend granularity =
     (if length timestamps = 0 then (Inr Map.empty, timestamps)
      else
        (let timestamps = sort_key (\<lambda>t. t) timestamps in
         (case GetPrices_priceData E ctx timestamps backend granularity of
            Inl err \<Rightarrow> Inl err
          | Inr priceData \<Rightarrow> GetPrices_loop priceData timestamps Map.empty,
          timestamps)))"

section \<open>The custom file source (\<^verbatim>\<open>customPrices\<close>)\<close>

record Price =
  price_Timestamp :: time
  price_Price :: decimal
  price_Currency :: string

record customPrices =
  currency :: string
  csvPath :: string
  getData :: "string \<Rightarrow> error + string list list"

text \<open>
  \<^verbatim>\<open>csv.NewReader(csvFile).ReadAll()\<close>. The reader is the standard library's; its
  lexing is the parameter \<open>csv_records\<close>, and its rule for the number of fields is
  written out here as the library documents it. \<^verbatim>\<open>NewReader\<close> leaves
  \<^verbatim>\<open>FieldsPerRecord\<close> at 0 (\<open>None\<close>): the first record then sets it to its
  number of fields, and a later well-formed record with another number of fields
  makes \<^verbatim>\<open>ReadAll\<close> return \<^verbatim>\<open>ErrFieldCount\<close> and no records. The first
  failing record ends the read.
\<close>

fun csv_ReadAll_loop ::
  "(error + string list) list \<Rightarrow> nat option \<Rightarrow> string list list \<Rightarrow> error + string list list" where
  "csv_ReadAll_loop [] FieldsPerRecord records = Inr records"
| "csv_ReadAll_loop (Inl err # rest) FieldsPerRecord records = Inl err"
| "csv_ReadAll_loop (Inr record # rest) FieldsPerRecord records =
     (case FieldsPerRecord of
        None \<Rightarrow> csv_ReadAll_loop rest (Some (length record)) (records @ [record])
      | Some n \<Rightarrow>
          if length record \<noteq> n then Inl ErrFieldCount
          else csv_ReadAll_loop rest FieldsPerRecord (records @ [record]))"

definition csv_ReadAll :: "('f, 'g, 'c) env \<Rightarrow> string \<Rightarrow> error + string list list" where
  "csv_ReadAll E csvFile = csv_ReadAll_loop (csv_records E csvFile) None []"

definition readDataFromFile :: "('f, 'g, 'c) env \<Rightarrow> string \<Rightarrow> error + string list list" where
  "readDataFromFile E path =
     (case os_Open E path of
        Inl err \<Rightarrow> Inl err
      | Inr csvFile \<Rightarrow> csv_ReadAll E csvFile)"

definition newCustomPricesAPI :: "('f, 'g, 'c) env \<Rightarrow> string \<Rightarrow> string \<Rightarrow> customPrices" where
  "newCustomPricesAPI E path code =
     \<lparr>currency = code, csvPath = path, getData = readDataFromFile E\<rparr>"

text \<open>
  The loop of \<^verbatim>\<open>rawPriceData\<close> fills the slice made by
  \<^verbatim>\<open>make([]*Price, len(csvLines))\<close>, whose elements start as nil pointers
  (\<open>None\<close>), at index \<open>i\<close>. Every failing record returns the error and a nil slice.
\<close>

fun rawPriceData_loop ::
  "('f, 'g, 'c) env \<Rightarrow> customPrices \<Rightarrow> string list list \<Rightarrow> nat \<Rightarrow> Price option list
     \<Rightarrow> error + Price option list" where
  "rawPriceData_loop E c [] i prices = Inr prices"
| "rawPriceData_loop E c (line # rest) i prices =
     (if length line \<noteq> 2 then Inl errIncorrectCSV
      else
        (case strconv_ParseInt E (line ! 0) of
           Inl err \<Rightarrow> Inl err
         | Inr timestamp \<Rightarrow>
             (case strconv_ParseFloat E (line ! 1) of
                Inl err \<Rightarrow> Inl err
              | Inr price \<Rightarrow>
                  rawPriceData_loop E c rest (i + 1)
                    (prices[i := Some \<lparr>price_Timestamp = Time_Unix timestamp 0,
                                       price_Price = decimal_NewFromFloat E price,
                                       price_Currency = currency c\<rparr>]))))"

text \<open>
  \<^verbatim>\<open>rawPriceData\<close> names its context, start time and end time parameters
  \<^verbatim>\<open>_\<close>; they are kept as arguments of the model.
\<close>

definition rawPriceData ::
  "('f, 'g, 'c) env \<Rightarrow> customPrices \<Rightarrow> 'c \<Rightarrow> time \<Rightarrow> time \<Rightarrow> error + Price option list" where
  "rawPriceData E c ctx startTime endTime =
     (case getData c (csvPath c) of
        Inl err \<Rightarrow> Inl err
      | Inr csvLines \<Rightarrow>
          rawPriceData_loop E c csvLines 0 (replicate (length csvLines) None))"

section \<open>A concrete environment for examples\<close>

text \<open>
  The theorems below hold for every environment. To run the model on concrete inputs
  an environment is fixed here: calendar dates are converted in UTC, integers are
  parsed in base 10 into the signed 64-bit range as \<^verbatim>\<open>strconv.ParseInt\<close> does,
  and prices are parsed from plain decimal literals. A \<^verbatim>\<open>float64\<close> is named by
  its shortest decimal representation, a rational number, which is the decimal that
  \<^verbatim>\<open>decimal.NewFromFloat\<close> returns for it.
\<close>

definition is_digit :: "char \<Rightarrow> bool" where
  "is_digit ch = (48 \<le> (of_char ch :: int) \<and> (of_char ch :: int) \<le> 57)"

fun digits_value :: "string \<Rightarrow> int \<Rightarrow> int option" where
  "digits_value [] acc = Some acc"
| "digits_value (ch # cs) acc =
     (if is_digit ch then digits_value cs (acc * 10 + (of_char ch - 48)) else None)"

definition example_ParseInt :: "string \<Rightarrow> error + int" where
  "example_ParseInt s =
     (case s of
        [] \<Rightarrow> Inl (ExternalError ''invalid syntax'')
      | ch # cs \<Rightarrow>
          (let neg = (ch = CHR ''-'');
               body = (if ch = CHR ''+'' \<or> ch = CHR ''-'' then cs else s)
           in if body = [] then Inl (ExternalError ''invalid syntax'')
              else (case digits_value body 0 of
                      None \<Rightarrow> Inl (ExternalError ''invalid syntax'')
                    | Some n \<Rightarrow>
                        if neg then
                          (if 9223372036854775808 < n
                           then Inl (ExternalError ''value out of range'')
                           else Inr (- n))
                        else
                          (if 9223372036854775808 \<le> n
                           then Inl (ExternalError ''value out of range'')
                           else Inr n))))"

definition example_ParseFloat :: "string \<Rightarrow> error + rat" where
  "example_ParseFloat s =
     (let neg = (s \<noteq> [] \<and> hd s = CHR ''-'');
          body = (if s \<noteq> [] \<and> (hd s = CHR ''+'' \<or> hd s = CHR ''-'') then tl s else s);
          ip = takeWhile (\<lambda>ch. ch \<noteq> CHR ''.'') body;
          fp = drop (length ip + 1) body
      in if ip = [] \<and> fp = [] then Inl (ExternalError ''invalid syntax'')
         else (case (digits_value ip 0, digits_value fp 0) of
                 (Some a, Some b) \<Rightarrow>
                   Inr ((if neg then - 1 else 1) * (of_int a + of_int b / 10 ^ length fp))
               | _ \<Rightarrow> Inl (ExternalError ''invalid syntax'')))"

text \<open>Days since 1970-01-01 of a date of the proleptic Gregorian calendar, and back.\<close>

definition days_from_civil :: "int \<Rightarrow> int \<Rightarrow> int \<Rightarrow> int" where
  "days_from_civil y m d =
     (let y1 = (if m \<le> 2 then y - 1 else y);
          era = y1 div 400;
          yoe = y1 - era * 400;
          doy = (153 * (if 2 < m then m - 3 else m + 9) + 2) div 5 + d - 1;
          doe = yoe * 365 + yoe div 4 - yoe div 100 + doy
      in era * 146097 + doe - 719468)"

definition civil_from_days :: "int \<Rightarrow> int \<times> int \<times> int" where
  "civil_from_days z0 =
     (let z = z0 + 719468;
          era = z div 146097;
          doe = z - era * 146097;
          yoe = (doe - doe div 1460 + doe div 36524 - doe div 146096) div 365;
          doy = doe - (365 * yoe + yoe div 4 - yoe div 100);
          mp = (5 * doy + 2) div 153;
          d = doy - (153 * mp + 2) div 5 + 1;
          m = (if mp < 10 then mp + 3 else mp - 9);
          y = yoe + era * 400
      in (if m \<le> 2 then y + 1 else y, m, d))"

definition nanos_per_day :: int where
  "nanos_per_day = 24 * Time_Hour"

definition digit_char :: "int \<Rightarrow> char" where
  "digit_char n = char_of (48 + nat n)"

definition example_Format :: "time \<Rightarrow> string" where
  "example_Format t =
     (case civil_from_days (t div nanos_per_day) of
        (y, m, d) \<Rightarrow>
          [digit_char (y div 1000 mod 10), digit_char (y div 100 mod 10),
           digit_char (y div 10 mod 10), digit_char (y mod 10), CHR ''-'',
           digit_char (m div 10), digit_char (m mod 10), CHR ''-'',
           digit_char (d div 10), digit_char (d mod 10)])"

definition example_Parse :: "string \<Rightarrow> error + time" where
  "example_Parse s =
     (if length s = 10 \<and> s ! 4 = CHR ''-'' \<and> s ! 7 = CHR ''-'' then
        (case (digits_value (take 4 s) 0, digits_value (take 2 (drop 5 s)) 0,
               digits_value (drop 8 s) 0) of
           (Some y, Some m, Some d) \<Rightarrow>
             (if 1 \<le> m \<and> m \<le> 12 \<and> 1 \<le> d \<and>
                 civil_from_days (days_from_civil y m d) = (y, m, d)
              then Inr (days_from_civil y m d * nanos_per_day)
              else Inl (ExternalError ''out of range''))
         | _ \<Rightarrow> Inl (ExternalError ''cannot parse''))
      else Inl (ExternalError ''cannot parse''))"

text \<open>
  In the example environment every range with \<open>start \<le> end\<close> is valid, the remote
  service answers every request with the same body, whose decoded entries the
  \<^verbatim>\<open>range\<close> loop visits in descending date order, the retry engine makes a single
  attempt, and the CoinCap backend returns two records in ascending order of time, as
  the spec requires of every price source. The reader of CSV splits the contents into
  lines and the lines at commas (CSV without quoted fields) and skips empty lines.
  Three files exist: \<^verbatim>\<open>prices.csv\<close> with the two records of the repository's
  test, \<^verbatim>\<open>three_columns.csv\<close> with a currency column added to them, and
  \<^verbatim>\<open>ragged.csv\<close> whose second record lacks the price.
\<close>

fun split_on :: "char \<Rightarrow> string \<Rightarrow> string \<Rightarrow> string list" where
  "split_on sep [] field = [field]"
| "split_on sep (ch # cs) field =
     (if ch = sep then field # split_on sep cs [] else split_on sep cs (field @ [ch]))"

definition example_csv_records :: "string \<Rightarrow> (error + string list) list" where
  "example_csv_records contents =
     map (\<lambda>line. Inr (split_on CHR '','' line []))
       (filter (\<lambda>line. line \<noteq> []) (split_on CHR 0x0A contents []))"

definition example_Open :: "string \<Rightarrow> error + string" where
  "example_Open path =
     (if path = ''prices.csv'' then
        Inr (''10000,10.1'' @ [CHR 0x0A] @ ''2000,110000'' @ [CHR 0x0A])
      else if path = ''three_columns.csv'' then
        Inr (''10000,10.1,USD'' @ [CHR 0x0A] @ ''2000,110000,USD'' @ [CHR 0x0A])
      else if path = ''ragged.csv'' then
        Inr (''10000,10.1'' @ [CHR 0x0A] @ ''2000'' @ [CHR 0x0A])
      else Inl (ExternalError ''no such file or directory''))"

definition example_env :: "(rat, unit, unit) env" where
  "example_env =
     \<lparr>ValidateTimeRange =
        (\<lambda>s e. if e < s then Some (ExternalError ''invalid time range'') else None),
      time_Format = example_Format,
      time_Parse = example_Parse,
      http_Get = (\<lambda>url. Inr ''bpi''),
      retryQuery =
        (\<lambda>ctx queryAPI convert.
           case queryAPI () of Inl err \<Rightarrow> Inl err | Inr response \<Rightarrow> convert response),
      json_Unmarshal =
        (\<lambda>data. if data = ''bpi''
                 then Inr [(''2021-04-17'', 10000), (''2021-04-16'', 101 / 10)]
                 else Inl (ExternalError ''unexpected end of JSON input'')),
      decimal_NewFromFloat = (\<lambda>f. f),
      strconv_ParseInt = example_ParseInt,
      strconv_ParseFloat = example_ParseFloat,
      newCoinCapAPI =
        (\<lambda>g ctx s e. Inr [\<lparr>Timestamp = 2000, Price = 110000\<rparr>,
                          \<lparr>Timestamp = 10000, Price = 101 / 10\<rparr>]),
      os_Open = example_Open,
      csv_records = example_csv_records\<rparr>"

text \<open>
  The source that the repository's test \<^verbatim>\<open>TestCustomRawPriceData\<close> builds: a
  \<^verbatim>\<open>customPrices\<close> value with the currency USD, no path, and a
  \<^verbatim>\<open>getData\<close> function that returns the test's two records.
\<close>

definition test_source :: customPrices where
  "test_source =
     \<lparr>currency = ''USD'', csvPath = [],
      getData = (\<lambda>path. Inr [[''10000'', ''10.1''], [''2000'', ''110000'']])\<rparr>"

section \<open>Properties of the point lookup\<close>

lemma GetPrice_loop_takeWhile:
  "GetPrice_loop xs t acc =
     (case takeWhile (\<lambda>p. Timestamp p \<le> t) xs of
        [] \<Rightarrow> acc
      | y # ys \<Rightarrow> Some (last (y # ys)))"
proof (induction xs arbitrary: acc)
  case Nil
  show ?case by simp
next
  case (Cons x xs)
  show ?case
  proof (cases "Timestamp x \<le> t")
    case True
    then show ?thesis
      by (simp add: Cons.IH Time_Before_def split: list.splits)
  next
    case False
    then show ?thesis by (simp add: Time_Before_def)
  qed
qed

lemma sorted_takeWhile_filter:
  "sorted (map Timestamp xs) \<Longrightarrow>
     takeWhile (\<lambda>p. Timestamp p \<le> t) xs = filter (\<lambda>p. Timestamp p \<le> (t::time)) xs"
proof (induction xs)
  case Nil
  show ?case by simp
next
  case (Cons x xs)
  show ?case
  proof (cases "Timestamp x \<le> t")
    case True
    with Cons show ?thesis by simp
  next
    case False
    with Cons.prems have "\<forall>p\<in>set xs. \<not> Timestamp p \<le> t" by fastforce
    then have "filter (\<lambda>p. Timestamp p \<le> t) xs = []" by (simp add: filter_empty_conv)
    with False show ?thesis by simp
  qed
qed

lemma GetPrice_last_index:
  assumes ne: "S \<noteq> []" and srt: "sorted (map Timestamp S)" and lo: "Timestamp (S ! 0) \<le> t"
  shows "\<exists>i<length S. GetPrice S t = Inr (S ! i) \<and> Timestamp (S ! i) \<le> t \<and>
           (\<forall>j<length S. Timestamp (S ! j) \<le> t \<longrightarrow> j \<le> i)"
proof -
  let ?P = "\<lambda>p. Timestamp p \<le> t"
  define n where "n = length (takeWhile ?P S)"
  have tw: "takeWhile ?P S = take n S"
    unfolding n_def by (rule takeWhile_eq_take)
  have n_le: "n \<le> length S"
    unfolding n_def by (rule length_takeWhile_le)
  from ne lo have "?P (hd S)" by (simp add: hd_conv_nth)
  with ne have nonempty: "takeWhile ?P S \<noteq> []" by (cases S) auto
  then have n_pos: "0 < n" unfolding n_def by simp
  have "last (take n S) = take n S ! (length (take n S) - 1)"
    using n_pos n_le by (intro last_conv_nth) auto
  also have "\<dots> = S ! (n - 1)"
    using n_pos n_le by simp
  finally have last_eq: "last (takeWhile ?P S) = S ! (n - 1)"
    using tw by simp
  from nonempty have "GetPrice_loop S t None = Some (last (takeWhile ?P S))"
    by (simp add: GetPrice_loop_takeWhile split: list.splits)
  with ne last_eq have res: "GetPrice S t = Inr (S ! (n - 1))"
    by (simp add: GetPrice_def)
  have "S ! (n - 1) \<in> set (takeWhile ?P S)"
    using nonempty last_eq by (metis last_in_set)
  then have ok: "Timestamp (S ! (n - 1)) \<le> t" by (auto dest: set_takeWhileD)
  have mx: "j \<le> n - 1" if j: "j < length S" and pj: "Timestamp (S ! j) \<le> t" for j
  proof (rule ccontr)
    assume "\<not> j \<le> n - 1"
    with n_pos have nj: "n \<le> j" by simp
    with j have nl: "n < length S" by simp
    then have "\<not> ?P (S ! n)" unfolding n_def by (rule nth_length_takeWhile)
    moreover from srt nj j have "Timestamp (S ! n) \<le> Timestamp (S ! j)"
      by (simp add: sorted_iff_nth_mono)
    ultimately show False using pj by simp
  qed
  from n_pos n_le have "n - 1 < length S" by simp
  with res ok mx show ?thesis by blast
qed

lemma GetPrice_before_first:
  assumes "S \<noteq> []" and "t < Timestamp (S ! 0)"
  shows "GetPrice S t = Inl errPriceOutOfRange"
  using assms by (cases S) (simp_all add: GetPrice_def Time_Before_def)

text \<open>
  Claim C1. For a non-empty series \<open>S\<close> sorted ascending by timestamp and a query
  timestamp \<open>t\<close> not before the first point, \<open>GetPrice S t\<close> succeeds with a point
  \<open>p\<close> of the series such that \<open>Timestamp p \<le> t\<close> and no point of the series with a
  timestamp at or before \<open>t\<close> has a later timestamp than \<open>p\<close>: it is the point at the
  greatest index whose timestamp is at or before \<open>t\<close>, that is, the last element of
  the series filtered by \<open>Timestamp q \<le> t\<close>. In particular, when \<open>t\<close> is the
  timestamp of a series point, the returned point carries exactly the timestamp \<open>t\<close>
  (not a later one), and it is that very point when timestamps do not repeat.
\<close>

theorem GetPrice_greatest_point:
  assumes "S \<noteq> []" and "sorted (map Timestamp S)" and "Timestamp (S ! 0) \<le> t"
  shows "\<exists>p. GetPrice S t = Inr p \<and> p \<in> set S \<and> Timestamp p \<le> t \<and>
           (\<forall>q\<in>set S. Timestamp q \<le> t \<longrightarrow> Timestamp q \<le> Timestamp p) \<and>
           (\<exists>i<length S. p = S ! i \<and> (\<forall>j<length S. Timestamp (S ! j) \<le> t \<longrightarrow> j \<le> i)) \<and>
           p = last (filter (\<lambda>q. Timestamp q \<le> t) S) \<and>
           (\<forall>q\<in>set S. Timestamp q = t \<longrightarrow> Timestamp p = t) \<and>
           (distinct (map Timestamp S) \<longrightarrow> (\<forall>q\<in>set S. Timestamp q = t \<longrightarrow> p = q))"
proof -
  from GetPrice_last_index [OF assms] obtain i where
    i: "i < length S" and res: "GetPrice S t = Inr (S ! i)" and
    le: "Timestamp (S ! i) \<le> t" and
    mx: "\<forall>j<length S. Timestamp (S ! j) \<le> t \<longrightarrow> j \<le> i"
    by blast
  let ?p = "S ! i"
  have mem: "?p \<in> set S" using i by simp
  have greatest: "Timestamp q \<le> Timestamp ?p" if q: "q \<in> set S" and qt: "Timestamp q \<le> t" for q
  proof -
    from q obtain j where j: "j < length S" and qj: "q = S ! j"
      by (auto simp: in_set_conv_nth)
    with qt mx have "j \<le> i" by simp
    with assms(2) i qj show ?thesis by (simp add: sorted_iff_nth_mono)
  qed
  have exact: "Timestamp ?p = t" if q: "q \<in> set S" and qt: "Timestamp q = t" for q
    using greatest [OF q] qt le by simp
  have same: "?p = q" if d: "distinct (map Timestamp S)" and q: "q \<in> set S" and qt: "Timestamp q = t" for q
  proof -
    from d have "inj_on Timestamp (set S)" by (simp add: distinct_map)
    moreover from exact [OF q qt] qt have "Timestamp ?p = Timestamp q" by simp
    ultimately show ?thesis using mem q by (auto dest: inj_onD)
  qed
  from assms(1) have "GetPrice_loop S t None =
      (case takeWhile (\<lambda>q. Timestamp q \<le> t) S of [] \<Rightarrow> None | y # ys \<Rightarrow> Some (last (y # ys)))"
    by (simp add: GetPrice_loop_takeWhile)
  with res assms(1) have "?p = last (takeWhile (\<lambda>q. Timestamp q \<le> t) S)"
    by (auto simp: GetPrice_def split: list.splits option.splits)
  with assms(2) have flt: "?p = last (filter (\<lambda>q. Timestamp q \<le> t) S)"
    by (simp add: sorted_takeWhile_filter)
  from res mem le greatest i mx flt exact same show ?thesis by blast
qed

theorem GetPrice_greatest_point_witness:
  "[\<lparr>Timestamp = 5, Price = 1\<rparr>, \<lparr>Timestamp = 7, Price = 2\<rparr>, \<lparr>Timestamp = 9, Price = 3\<rparr>] \<noteq> [] \<and>
   sorted (map Timestamp
     [\<lparr>Timestamp = 5, Price = 1\<rparr>, \<lparr>Timestamp = 7, Price = 2\<rparr>, \<lparr>Timestamp = 9, Price = 3\<rparr>]) \<and>
   GetPrice [\<lparr>Timestamp = 5, Price = 1\<rparr>, \<lparr>Timestamp = 7, Price = 2\<rparr>, \<lparr>Timestamp = 9, Price = 3\<rparr>] 7
     = Inr \<lparr>Timestamp = 7, Price = 2\<rparr> \<and>
   GetPrice [\<lparr>Timestamp = 5, Price = 1\<rparr>, \<lparr>Timestamp = 7, Price = 2\<rparr>, \<lparr>Timestamp = 9, Price = 3\<rparr>] 8
     = Inr \<lparr>Timestamp = 7, Price = 2\<rparr>"
  using GetPrice_greatest_point
    [of "[\<lparr>Timestamp = 5, Price = 1\<rparr>, \<lparr>Timestamp = 7, Price = 2\<rparr>, \<lparr>Timestamp = 9, Price = 3\<rparr>]" 7]
    GetPrice_greatest_point
    [of "[\<lparr>Timestamp = 5, Price = 1\<rparr>, \<lparr>Timestamp = 7, Price = 2\<rparr>, \<lparr>Timestamp = 9, Price = 3\<rparr>]" 8]
  by (simp add: GetPrice_def Time_Before_def)

text \<open>
  Claim C3. \<open>GetPrice\<close> on the empty series fails with \<open>errNoPrices\<close> for every
  timestamp; on a non-empty ascending series it fails with \<open>errPriceOutOfRange\<close> when
  the timestamp is strictly before the first point, and succeeds in every other case.
  The three cases cover every sorted series, so these are the only failures.
\<close>

theorem GetPrice_failure_cases:
  "GetPrice [] t = Inl errNoPrices \<and>
   (S \<noteq> [] \<and> sorted (map Timestamp S) \<longrightarrow>
      (t < Timestamp (S ! 0) \<longrightarrow> GetPrice S t = Inl errPriceOutOfRange) \<and>
      (Timestamp (S ! 0) \<le> t \<longrightarrow> (\<exists>p. GetPrice S t = Inr p)))"
proof -
  have "GetPrice [] t = Inl errNoPrices" by (simp add: GetPrice_def)
  moreover have "GetPrice S t = Inl errPriceOutOfRange"
    if "S \<noteq> []" and "t < Timestamp (S ! 0)"
    using that by (rule GetPrice_before_first)
  moreover have "\<exists>p. GetPrice S t = Inr p"
    if "S \<noteq> []" and "sorted (map Timestamp S)" and "Timestamp (S ! 0) \<le> t"
    using GetPrice_last_index [OF that] by blast
  ultimately show ?thesis by blast
qed

theorem GetPrice_failure_cases_witness:
  "GetPrice [] 4 = Inl errNoPrices \<and>
   sorted (map Timestamp [\<lparr>Timestamp = 5, Price = 1\<rparr>, \<lparr>Timestamp = 7, Price = 2\<rparr>]) \<and>
   GetPrice [\<lparr>Timestamp = 5, Price = 1\<rparr>, \<lparr>Timestamp = 7, Price = 2\<rparr>] 4 = Inl errPriceOutOfRange \<and>
   (\<exists>p. GetPrice [\<lparr>Timestamp = 5, Price = 1\<rparr>, \<lparr>Timestamp = 7, Price = 2\<rparr>] 5 = Inr p)"
  using GetPrice_failure_cases [of 4 "[\<lparr>Timestamp = 5, Price = 1\<rparr>, \<lparr>Timestamp = 7, Price = 2\<rparr>]"]
    GetPrice_failure_cases [of 5 "[\<lparr>Timestamp = 5, Price = 1\<rparr>, \<lparr>Timestamp = 7, Price = 2\<rparr>]"]
  by simp

section \<open>Properties of the unit conversion\<close>

lemma sint_eq_unat_small:
  assumes "unat (amt :: 64 word) < 2 ^ 63"
  shows "sint amt = int (unat amt)"
proof -
  have "sint amt = signed_take_bit 63 (uint amt)"
    by (simp add: sint_uint)
  also have "\<dots> = uint amt"
  proof -
    have "- (2 ^ 63) \<le> uint amt"
      by (rule order_trans [of _ 0]) simp_all
    moreover from assms have "uint amt < 2 ^ 63"
      by (metis of_nat_less_iff of_nat_numeral of_nat_power uint_nat)
    ultimately show ?thesis
      by (rule signed_take_bit_int_eq_self)
  qed
  finally show ?thesis by (simp only: uint_nat)
qed

text \<open>
  Below \<open>2 ^ 63\<close> millisatoshi the conversion is the exact product the spec gives,
  as in the spec's example with price 20000 and amount 100000.
\<close>

lemma MsatToUSD_in_range:
  "unat amt < 2 ^ 63 \<Longrightarrow> MsatToUSD price amt = price / 10 ^ 11 * of_nat (unat amt)"
  by (simp add: MsatToUSD_def decimal_Div_def decimal_Mul_def decimal_NewFromInt_def
      sint_eq_unat_small)

lemma MsatToUSD_spec_example:
  "MsatToUSD 20000 100000 = 20000 / 10 ^ 11 * 100000"
  using MsatToUSD_in_range [of 100000 20000] by simp

text \<open>
  Claim C4. The claim is that \<open>MsatToUSD price amt\<close> is \<open>price / 10 ^ 11 * amt\<close> for
  every unsigned 64-bit amount. The code converts the amount with \<^verbatim>\<open>int64(amt)\<close>,
  so an amount of \<open>2 ^ 63\<close> millisatoshi or more is read as a negative number: at the
  price \<open>10 ^ 11\<close> the amount \<open>2 ^ 63\<close> is converted to \<open>- 2 ^ 63\<close>, where the claimed
  value is \<open>2 ^ 63\<close>.
\<close>

theorem MsatToUSD_int64_overflow:
  "MsatToUSD 100000000000 9223372036854775808 = - 9223372036854775808 \<and>
   (100000000000 :: rat) / 10 ^ 11 * of_nat (unat (9223372036854775808 :: 64 word))
     = 9223372036854775808"
  by (simp add: MsatToUSD_def decimal_Div_def decimal_Mul_def decimal_NewFromInt_def)

section \<open>Properties of the orchestrator\<close>

text \<open>
  Claim C7. For every environment, context, backend selector and granularity,
  \<open>GetPrices\<close> on the empty timestamp list returns the empty map and no error, and
  leaves the list empty. The result does not depend on the environment or on the
  selector (also not on a selector that names no backend, or an environment whose
  sources fail), so no backend is constructed and nothing is fetched.
\<close>

theorem GetPrices_empty_timestamps:
  "GetPrices E ctx [] backend granularity = (Inr Map.empty, [])"
  by (simp add: GetPrices_def)

text \<open>
  Claim C9. After a call of \<open>GetPrices\<close>, whatever it returns, the caller's slice
  holds its timestamps in ascending order: it is the stable sort of what the caller
  passed, a permutation of it.
\<close>

theorem GetPrices_sorts_timestamps:
  "snd (GetPrices E ctx timestamps backend granularity) = sort timestamps \<and>
   sorted (snd (GetPrices E ctx timestamps backend granularity)) \<and>
   mset (snd (GetPrices E ctx timestamps backend granularity)) = mset timestamps"
proof -
  have "snd (GetPrices E ctx timestamps backend granularity) = sort timestamps"
    by (cases timestamps) (simp_all add: GetPrices_def Let_def)
  then show ?thesis by simp
qed

theorem GetPrices_sorts_timestamps_witness:
  "snd (GetPrices example_env () [3, 1, 2] 7 ()) = [1, 2, 3] \<and> [3, 1, 2] \<noteq> [1, 2, (3::int)]"
  using GetPrices_sorts_timestamps [of example_env "()" "[3, 1, 2]" 7 "()"] by simp






section \<open>Properties of the CoinDesk source\<close>

text \<open>
  Claim C6. For every start and end time that pass the range validation, the only
  request the CoinDesk source gives the retry engine to issue is a GET of the history
  URL whose \<^verbatim>\<open>start\<close> parameter is the formatted date of the requested start
  minus 24 hours and whose \<^verbatim>\<open>end\<close> parameter is the formatted date of the
  requested end, unchanged. When the validation fails no request is issued.
\<close>

theorem coinDesk_query_backdated:
  "coinDeskAPI_GetPrices E ctx start end =
     (case ValidateTimeRange E start end of
        Some err \<Rightarrow> Inl err
      | None \<Rightarrow>
          (case retryQuery E ctx
                  (\<lambda>_. http_Get E
                         (''https://api.coindesk.com/v1/bpi/historical/close.json?start='' @
                          time_Format E (start - 24 * 3600 * 1000000000) @
                          ''&end='' @ time_Format E end))
                  (parseCoinDeskData E) of
             Inl err \<Rightarrow> Inl err
           | Inr records \<Rightarrow> Inr (sort_key Timestamp records)))"
  by (simp add: coinDeskAPI_GetPrices_def query_def queryCoinDesk_def queryURL_def
      coinDeskHistoryAPI_def Time_Add_def Time_Hour_def Let_def split: option.splits)

theorem coinDesk_query_backdated_witness:
  "coinDeskAPI_GetPrices example_env () 1618617600000000000 1618617600000000000 =
     (case retryQuery example_env ()
             (\<lambda>_. http_Get example_env
                ''https://api.coindesk.com/v1/bpi/historical/close.json?start=2021-04-16&end=2021-04-17'')
             (parseCoinDeskData example_env) of
        Inl err \<Rightarrow> Inl err
      | Inr records \<Rightarrow> Inr (sort_key Timestamp records))"
proof -
  have valid: "ValidateTimeRange example_env 1618617600000000000 1618617600000000000 = None"
    by (simp add: example_env_def)
  have fmt: "time_Format example_env = example_Format"
    by (simp add: example_env_def)
  have d1: "example_Format (1618617600000000000 - 24 * 3600 * 1000000000) = ''2021-04-16''"
    by code_simp
  have d2: "example_Format 1618617600000000000 = ''2021-04-17''"
    by code_simp
  from coinDesk_query_backdated [of example_env "()" 1618617600000000000 1618617600000000000]
  show ?thesis
    by (simp only: valid fmt d1 d2 option.case append.simps)
qed


lemma parseCoinDeskData_loop_all:
  assumes "\<forall>entry\<in>set entries. \<exists>t. time_Parse E (fst entry) = Inr t"
  shows "parseCoinDeskData_loop E entries acc =
           Inr (acc @ map (\<lambda>entry. \<lparr>Timestamp = projr (time_Parse E (fst entry)),
                                     Price = decimal_NewFromFloat E (snd entry)\<rparr>) entries)"
  using assms
proof (induction entries arbitrary: acc)
  case Nil
  show ?case by simp
next
  case (Cons entry entries)
  obtain d p where entry: "entry = (d, p)" by (cases entry)
  from Cons.prems entry obtain t where t: "time_Parse E d = Inr t" by auto
  from Cons.prems have "\<forall>entry\<in>set entries. \<exists>t. time_Parse E (fst entry) = Inr t" by simp
  from Cons.IH [OF this] entry t show ?case by simp
qed

text \<open>
  Claim C8. When the response decodes to a list of (date, price) entries whose dates
  all parse with the CoinDesk date format, \<open>parseCoinDeskData\<close> returns one record
  per entry, in the order in which the entries are visited: the timestamp of the
  record is the parsed date of the entry and its price is
  \<^verbatim>\<open>decimal.NewFromFloat\<close> of the entry's float, the decimal that denotes that
  float.
\<close>

theorem parseCoinDeskData_entries:
  assumes "json_Unmarshal E data = Inr entries"
    and "\<forall>entry\<in>set entries. \<exists>t. time_Parse E (fst entry) = Inr t"
  shows "\<exists>records. parseCoinDeskData E data = Inr records \<and>
           length records = length entries \<and>
           (\<forall>i<length entries.
              time_Parse E (fst (entries ! i)) = Inr (Timestamp (records ! i)) \<and>
              Price (records ! i) = decimal_NewFromFloat E (snd (entries ! i)))"
proof -
  let ?f = "\<lambda>entry. \<lparr>Timestamp = projr (time_Parse E (fst entry)),
                      Price = decimal_NewFromFloat E (snd entry)\<rparr>"
  from assms have res: "parseCoinDeskData E data = Inr (map ?f entries)"
    by (simp add: parseCoinDeskData_def parseCoinDeskData_loop_all)
  have "time_Parse E (fst (entries ! i)) = Inr (Timestamp (map ?f entries ! i)) \<and>
        Price (map ?f entries ! i) = decimal_NewFromFloat E (snd (entries ! i))"
    if "i < length entries" for i
  proof -
    from that have "entries ! i \<in> set entries" by simp
    with assms(2) obtain t where "time_Parse E (fst (entries ! i)) = Inr t" by blast
    with that show ?thesis by simp
  qed
  with res show ?thesis by simp
qed

theorem parseCoinDeskData_entries_witness:
  "json_Unmarshal example_env ''bpi'' = Inr [(''2021-04-17'', 10000), (''2021-04-16'', 101 / 10)] \<and>
   time_Parse example_env ''2021-04-17'' = Inr 1618617600000000000 \<and>
   time_Parse example_env ''2021-04-16'' = Inr 1618531200000000000 \<and>
   parseCoinDeskData example_env ''bpi'' =
     Inr [\<lparr>Timestamp = 1618617600000000000, Price = 10000\<rparr>,
          \<lparr>Timestamp = 1618531200000000000, Price = 101 / 10\<rparr>]"
proof -
  have decoded: "json_Unmarshal example_env ''bpi'' =
      Inr [(''2021-04-17'', 10000), (''2021-04-16'', 101 / 10)]"
    by (simp add: example_env_def)
  have d17: "time_Parse example_env ''2021-04-17'' = Inr 1618617600000000000"
    by code_simp
  have d16: "time_Parse example_env ''2021-04-16'' = Inr 1618531200000000000"
    by code_simp
  have dates: "\<forall>entry\<in>set [(''2021-04-17'', 10000::rat), (''2021-04-16'', 101 / 10)].
      \<exists>t. time_Parse example_env (fst entry) = Inr t"
    using d16 d17 by simp
  have price: "decimal_NewFromFloat example_env = (\<lambda>f. f)"
    by (simp add: example_env_def)
  from parseCoinDeskData_entries [OF decoded dates] obtain records where
    res: "parseCoinDeskData example_env ''bpi'' = Inr records" and
    len: "length records = 2" and
    each: "\<forall>i<2. time_Parse example_env
               (fst ([(''2021-04-17'', 10000::rat), (''2021-04-16'', 101 / 10)] ! i)) =
             Inr (Timestamp (records ! i)) \<and>
             Price (records ! i) = decimal_NewFromFloat example_env
               (snd ([(''2021-04-17'', 10000::rat), (''2021-04-16'', 101 / 10)] ! i))"
    by auto
  from each [rule_format, of 0] d17 price
  have r0: "records ! 0 = \<lparr>Timestamp = 1618617600000000000, Price = 10000\<rparr>"
    by simp
  from each [rule_format, of 1] d16 price
  have r1: "records ! 1 = \<lparr>Timestamp = 1618531200000000000, Price = 101 / 10\<rparr>"
    by simp
  from len obtain a b where ab: "records = [a, b]"
    by (cases records; cases "tl records") auto
  with r0 r1 have "records = [\<lparr>Timestamp = 1618617600000000000, Price = 10000\<rparr>,
                              \<lparr>Timestamp = 1618531200000000000, Price = 101 / 10\<rparr>]"
    by simp
  with res decoded d16 d17 show ?thesis by simp
qed

section \<open>Properties of the custom file source\<close>

lemma rawPriceData_loop_ok:
  assumes "\<forall>line\<in>set csvLines. length line = 2 \<and>
             (\<exists>ts. strconv_ParseInt E (line ! 0) = Inr ts) \<and>
             (\<exists>p. strconv_ParseFloat E (line ! 1) = Inr p)"
    and "i + length csvLines \<le> length prices"
  shows "rawPriceData_loop E c csvLines i prices =
           Inr (take i prices @
                map (\<lambda>line. Some \<lparr>price_Timestamp = Time_Unix (projr (strconv_ParseInt E (line ! 0))) 0,
                                   price_Price = decimal_NewFromFloat E (projr (strconv_ParseFloat E (line ! 1))),
                                   price_Currency = currency c\<rparr>) csvLines @
                drop (i + length csvLines) prices)"
  using assms
proof (induction csvLines arbitrary: i prices)
  case Nil
  then show ?case by simp
next
  case (Cons line rest)
  from Cons.prems(1) obtain ts p where
    len: "length line = 2" and ts: "strconv_ParseInt E (line ! 0) = Inr ts"
    and p: "strconv_ParseFloat E (line ! 1) = Inr p"
    by auto
  let ?x = "Some \<lparr>price_Timestamp = Time_Unix ts 0, price_Price = decimal_NewFromFloat E p,
                  price_Currency = currency c\<rparr>"
  from Cons.prems(2) have i: "i < length prices" by simp
  have rest_ok: "\<forall>line\<in>set rest. length line = 2 \<and>
             (\<exists>ts. strconv_ParseInt E (line ! 0) = Inr ts) \<and>
             (\<exists>p. strconv_ParseFloat E (line ! 1) = Inr p)"
    using Cons.prems(1) by simp
  have bound: "(i + 1) + length rest \<le> length (prices[i := ?x])"
    using Cons.prems(2) by simp
  have tk: "take (i + 1) (prices[i := ?x]) = take i prices @ [?x]"
    using i by (simp add: take_Suc_conv_app_nth)
  have dr: "drop (i + 1 + length rest) (prices[i := ?x]) = drop (i + length (line # rest)) prices"
    by simp
  from Cons.IH [OF rest_ok bound] len ts p tk dr show ?case
    by simp
qed

lemma rawPriceData_loop_success:
  "rawPriceData_loop E c csvLines i prices = Inr result \<Longrightarrow>
     \<forall>line\<in>set csvLines. length line = 2 \<and>
        (\<exists>ts. strconv_ParseInt E (line ! 0) = Inr ts) \<and>
        (\<exists>p. strconv_ParseFloat E (line ! 1) = Inr p)"
proof (induction csvLines arbitrary: i prices)
  case Nil
  show ?case by simp
next
  case (Cons line rest)
  from Cons.prems show ?case
    by (auto split: if_splits sum.splits dest: Cons.IH)
qed

lemma rawPriceData_loop_first_malformed:
  assumes "\<forall>line\<in>set pre. length line = 2 \<and>
             (\<exists>ts. strconv_ParseInt E (line ! 0) = Inr ts) \<and>
             (\<exists>p. strconv_ParseFloat E (line ! 1) = Inr p)"
    and "length bad \<noteq> 2"
  shows "rawPriceData_loop E c (pre @ bad # post) i prices = Inl errIncorrectCSV"
  using assms
proof (induction pre arbitrary: i prices)
  case Nil
  then show ?case by simp
next
  case (Cons line pre)
  from Cons.prems(1) obtain ts p where
    "length line = 2" "strconv_ParseInt E (line ! 0) = Inr ts" "strconv_ParseFloat E (line ! 1) = Inr p"
    by auto
  moreover from Cons.prems have "rawPriceData_loop E c (pre @ bad # post) (i + 1) ps = Inl errIncorrectCSV" for ps
    by (intro Cons.IH) simp_all
  ultimately show ?case by simp
qed







text \<open>
  A file whose records differ in their number of fields never reaches that check: the
  reader rejects it, and \<open>rawPriceData\<close> returns the reader's error. A file with the
  two records of the repository's test is read in full.
\<close>

lemma rawPriceData_ragged_file:
  "rawPriceData example_env (newCustomPricesAPI example_env ''ragged.csv'' ''USD'') () 0 0 =
     Inl ErrFieldCount"
  by code_simp

lemma rawPriceData_prices_file:
  "rawPriceData example_env (newCustomPricesAPI example_env ''prices.csv'' ''USD'') () 0 0 =
     Inr [Some \<lparr>price_Timestamp = 10000000000000, price_Price = 101 / 10, price_Currency = ''USD''\<rparr>,
          Some \<lparr>price_Timestamp = 2000000000000, price_Price = 110000, price_Currency = ''USD''\<rparr>]"
  by code_simp

text \<open>
  Claim C10. \<open>rawPriceData\<close> does not use its context, start time and end time: for
  the same source, any two requested ranges give the same result. When it succeeds,
  the result has one price per record of the file, in file order, built from that
  record alone; no record is left out.
\<close>

theorem rawPriceData_ignores_time_range:
  "rawPriceData E c ctx startTime endTime = rawPriceData E c ctx' startTime' endTime' \<and>
   (getData c (csvPath c) = Inr csvLines \<and>
    rawPriceData E c ctx startTime endTime = Inr prices \<longrightarrow>
      length prices = length csvLines \<and>
      (\<forall>i<length csvLines. \<exists>ts p.
         length (csvLines ! i) = 2 \<and>
         strconv_ParseInt E (csvLines ! i ! 0) = Inr ts \<and>
         strconv_ParseFloat E (csvLines ! i ! 1) = Inr p \<and>
         prices ! i = Some \<lparr>price_Timestamp = Time_Unix ts 0,
                             price_Price = decimal_NewFromFloat E p,
                             price_Currency = currency c\<rparr>))"
proof -
  have same: "rawPriceData E c ctx startTime endTime = rawPriceData E c ctx' startTime' endTime'"
    by (simp add: rawPriceData_def)
  have full: "length prices = length csvLines \<and>
      (\<forall>i<length csvLines. \<exists>ts p.
         length (csvLines ! i) = 2 \<and>
         strconv_ParseInt E (csvLines ! i ! 0) = Inr ts \<and>
         strconv_ParseFloat E (csvLines ! i ! 1) = Inr p \<and>
         prices ! i = Some \<lparr>price_Timestamp = Time_Unix ts 0,
                             price_Price = decimal_NewFromFloat E p,
                             price_Currency = currency c\<rparr>)"
    if contents: "getData c (csvPath c) = Inr csvLines"
      and res: "rawPriceData E c ctx startTime endTime = Inr prices"
  proof -
    let ?f = "\<lambda>line. Some \<lparr>price_Timestamp = Time_Unix (projr (strconv_ParseInt E (line ! 0))) 0,
                   price_Price = decimal_NewFromFloat E (projr (strconv_ParseFloat E (line ! 1))),
                   price_Currency = currency c\<rparr>"
    from contents res have loop: "rawPriceData_loop E c csvLines 0 (replicate (length csvLines) None) =
        Inr prices"
      by (simp add: rawPriceData_def)
    from rawPriceData_loop_success [OF loop] have ok:
      "\<forall>line\<in>set csvLines. length line = 2 \<and>
         (\<exists>ts. strconv_ParseInt E (line ! 0) = Inr ts) \<and>
         (\<exists>p. strconv_ParseFloat E (line ! 1) = Inr p)" .
    from rawPriceData_loop_ok [OF ok, of 0 "replicate (length csvLines) None" c] loop
    have eq: "prices = map ?f csvLines" by simp
    have "\<exists>ts p. length (csvLines ! i) = 2 \<and>
         strconv_ParseInt E (csvLines ! i ! 0) = Inr ts \<and>
         strconv_ParseFloat E (csvLines ! i ! 1) = Inr p \<and>
         prices ! i = Some \<lparr>price_Timestamp = Time_Unix ts 0,
                             price_Price = decimal_NewFromFloat E p,
                             price_Currency = currency c\<rparr>"
      if i: "i < length csvLines" for i
    proof -
      from i have "csvLines ! i \<in> set csvLines" by simp
      with ok obtain ts p where
        "length (csvLines ! i) = 2" "strconv_ParseInt E (csvLines ! i ! 0) = Inr ts"
        "strconv_ParseFloat E (csvLines ! i ! 1) = Inr p"
        by blast
      with eq i show ?thesis by simp
    qed
    with eq show ?thesis by simp
  qed
  from same full show ?thesis by blast
qed

theorem rawPriceData_ignores_time_range_witness:
  "rawPriceData example_env test_source () 0 0 =
     rawPriceData example_env test_source ()
       5000000000000 6000000000000 \<and>
   rawPriceData example_env test_source ()
       5000000000000 6000000000000 =
     Inr [Some \<lparr>price_Timestamp = 10000000000000, price_Price = 101 / 10, price_Currency = ''USD''\<rparr>,
          Some \<lparr>price_Timestamp = 2000000000000, price_Price = 110000, price_Currency = ''USD''\<rparr>]"
proof -
  have res: "rawPriceData example_env
      test_source () 0 0 =
     Inr [Some \<lparr>price_Timestamp = 10000000000000, price_Price = 101 / 10, price_Currency = ''USD''\<rparr>,
          Some \<lparr>price_Timestamp = 2000000000000, price_Price = 110000, price_Currency = ''USD''\<rparr>]"
    by code_simp
  from rawPriceData_ignores_time_range
    [of example_env "test_source" "()" 0 0
        "()" 5000000000000 6000000000000]
  have "rawPriceData example_env
      test_source () 0 0 =
     rawPriceData example_env test_source ()
       5000000000000 6000000000000"
    by blast
  with res show ?thesis by simp
qed

end
